theory Spec2Isabelle
  imports Main
begin

section \<open>The script \<open>scripts/auth-login.py\<close>\<close>

text \<open>
  The script builds a fixed credential payload, picks one of two URLs from the second
  element of the argument vector, posts the payload with an \<open>httpx.Client\<close> held in a
  \<open>with\<close> block, and pretty-prints the decoded answer. The model below keeps every
  raise of the source as a value (\<open>Inl\<close>), and records what the process does to the
  outside world as a list of events, oldest first.
\<close>

subsection \<open>Values, errors and events\<close>

text \<open>JSON values; a dictionary keeps the order in which its keys were written.\<close>

datatype json =
    JNull
  | JBool bool
  | JInt int
  | JStr string
  | JList "json list"
  | JDict "(string \<times> json) list"

text \<open>
  The exceptions that can leave \<open>main\<close>: the subscript \<open>args[1]\<close> out of range, the
  local \<open>url\<close> read while no \<open>case\<close> has bound it, the connection failing, the status
  check failing (with the status), and a body that is not JSON.
\<close>

datatype error =
    IndexError
  | UnboundLocalError
  | ConnectError
  | HTTPStatusError int
  | JSONDecodeError

text \<open>
  A response as the script reads it: its status code and what \<open>r.json()\<close> decodes
  (\<open>None\<close> when the body is not JSON).
\<close>

record response =
  status_code :: int
  json_body :: "json option"

text \<open>What the network gives back to one POST, and the server as seen from the client.\<close>

datatype outcome = Unreachable | Replied response

type_synonym server = "string \<Rightarrow> json \<Rightarrow> outcome"

datatype event =
    ClientEnter
  | Post string json
  | ClientExit
  | Pprint json
  | Traceback error

text \<open>The POST requests of a trace, in order: the URL and the \<open>json=\<close> argument of each.\<close>

fun posts :: "event list \<Rightarrow> (string \<times> json) list" where
  "posts [] = []"
| "posts (Post u b # es) = (u, b) # posts es"
| "posts (e # es) = posts es"

subsection \<open>The pieces of \<open>main\<close>\<close>

text \<open>Lines 13 to 16: the payload literal.\<close>

definition payload :: json where
  "payload =
     JDict [(''email'', JStr ''joeblackwaslike@me.com''),
            (''password'', JStr ''Prosperis123!'')]"

text \<open>Lines 18 and 19: \<open>if len(args) == 0: args.append("login")\<close>.\<close>

definition default_args :: "string list \<Rightarrow> string list" where
  "default_args args = (if length args = 0 then args @ [''login''] else args)"

text \<open>A subscript with a non-negative literal index: out of range raises.\<close>

definition subscript :: "string list \<Rightarrow> nat \<Rightarrow> error + string" where
  "subscript xs i = (if i < length xs then Inr (xs ! i) else Inl IndexError)"

text \<open>
  Lines 21 to 25: the \<open>match\<close> statement. It has no wildcard case, so for any other
  subject no branch runs and \<open>url\<close> stays unbound: that is \<open>None\<close> here.
\<close>

definition select_url :: "string \<Rightarrow> string option" where
  "select_url cmd =
     (if cmd = ''register'' then Some ''http://localhost:3001/api/auth/register''
      else if cmd = ''login'' then Some ''http://localhost:3001/api/auth/login''
      else None)"

text \<open>Line 28: \<open>client.post(url, json=payload)\<close>. The call is recorded whatever comes back.\<close>

definition client_post ::
  "server \<Rightarrow> string \<Rightarrow> json \<Rightarrow> event list \<Rightarrow> (error + response) \<times> event list" where
  "client_post srv url body tr =
     (case srv url body of
        Unreachable \<Rightarrow> (Inl ConnectError, tr @ [Post url body])
      | Replied r \<Rightarrow> (Inr r, tr @ [Post url body]))"

text \<open>
  Modelled from the spec: \<open>Response.raise_for_status\<close> (line 32) belongs to the httpx
  library, which is not part of the sources. Section 6 of the specification has the call
  fail on a "non-success status", and the success statuses of HTTP are 200 to 299; this is
  also the check the library documents: a 2xx response is handed back, every other status
  raises \<open>HTTPStatusError\<close>, informational and redirect replies included. The narrower
  wordings of sections 2 and 4.2 ("non-2xx/3xx", "client or server error") are not what
  the call does and are not followed here.
\<close>

definition raise_for_status :: "response \<Rightarrow> error + response" where
  "raise_for_status r =
     (if 200 \<le> status_code r \<and> status_code r \<le> 299
      then Inr r
      else Inl (HTTPStatusError (status_code r)))"

text \<open>Line 33: \<open>r.json()\<close>.\<close>

definition json_of :: "response \<Rightarrow> error + json" where
  "json_of r = (case json_body r of None \<Rightarrow> Inl JSONDecodeError | Some j \<Rightarrow> Inr j)"

text \<open>
  Line 27: \<open>with httpx.Client() as client\<close>. The client is entered, the body runs, and the
  client is left again whether the body returned or raised; the body's result goes on.
\<close>

definition with_client ::
  "(event list \<Rightarrow> (error + 'a) \<times> event list) \<Rightarrow> event list \<Rightarrow> (error + 'a) \<times> event list" where
  "with_client body tr =
     (case body (tr @ [ClientEnter]) of (res, tr') \<Rightarrow> (res, tr' @ [ClientExit]))"

text \<open>
  Lines 28 to 33, the body of the \<open>with\<close> block. Reading \<open>url\<close> comes first: when no case
  bound it, the read raises before any request is made.
\<close>

definition request ::
  "server \<Rightarrow> string option \<Rightarrow> event list \<Rightarrow> (error + json) \<times> event list" where
  "request srv url tr =
     (case url of
        None \<Rightarrow> (Inl UnboundLocalError, tr)
      | Some u \<Rightarrow>
          (case client_post srv u payload tr of
             (Inl e, tr') \<Rightarrow> (Inl e, tr')
           | (Inr r, tr') \<Rightarrow>
               (case raise_for_status r of
                  Inl e \<Rightarrow> (Inl e, tr')
                | Inr r' \<Rightarrow> (json_of r', tr'))))"

subsection \<open>\<open>main\<close> and the process\<close>

text \<open>Lines 12 to 33. The result comes with the trace of what was done.\<close>

definition main :: "server \<Rightarrow> string list \<Rightarrow> (error + json) \<times> event list" where
  "main srv args0 =
     (let args = default_args args0 in
      case subscript args 1 of
        Inl e \<Rightarrow> (Inl e, [])
      | Inr cmd \<Rightarrow> with_client (request srv (select_url cmd)) [])"

text \<open>
  Lines 36 and 37: \<open>pprint(main())\<close> with \<open>sys.argv\<close>. An exception that leaves \<open>main\<close> is
  not caught: the interpreter prints the traceback and exits with status 1.
\<close>

record process =
  exit_status :: nat
  events :: "event list"

definition script :: "server \<Rightarrow> string list \<Rightarrow> process" where
  "script srv argv =
     (case main srv argv of
        (Inl e, tr) \<Rightarrow> \<lparr>exit_status = 1, events = tr @ [Traceback e]\<rparr>
      | (Inr j, tr) \<Rightarrow> \<lparr>exit_status = 0, events = tr @ [Pprint j]\<rparr>)"

subsection \<open>Servers used as concrete inputs\<close>

definition token :: json where
  "token = JDict [(''token'', JStr ''abc'')]"

definition srv_token :: server where
  "srv_token u b = Replied \<lparr>status_code = 200, json_body = Some token\<rparr>"

definition srv_unauthorized :: server where
  "srv_unauthorized u b = Replied \<lparr>status_code = 401, json_body = Some JNull\<rparr>"

definition srv_down :: server where
  "srv_down u b = Unreachable"

definition found :: response where
  "found = \<lparr>status_code = 302, json_body = Some JNull\<rparr>"

definition srv_found :: server where
  "srv_found u b = Replied found"

section \<open>Properties\<close>

subsection \<open>Shared facts\<close>

lemma select_url_cases:
  "select_url cmd = Some u \<longleftrightarrow>
     (cmd = ''register'' \<and> u = ''http://localhost:3001/api/auth/register'') \<or>
     (cmd = ''login'' \<and> u = ''http://localhost:3001/api/auth/login'')"
  by (auto simp: select_url_def)

lemma select_url_None:
  "select_url cmd = None \<longleftrightarrow> cmd \<noteq> ''register'' \<and> cmd \<noteq> ''login''"
  by (simp add: select_url_def)

lemma default_args_nonempty: "args \<noteq> [] \<Longrightarrow> default_args args = args"
  by (simp add: default_args_def)

lemma main_short: "length args \<le> 1 \<Longrightarrow> main srv args = (Inl IndexError, [])"
  by (cases args) (simp_all add: main_def default_args_def subscript_def)

lemma main_long:
  "1 < length args \<Longrightarrow> main srv args = with_client (request srv (select_url (args ! 1))) []"
  by (cases args) (simp_all add: main_def default_args_def subscript_def)

lemma request_unbound: "request srv None tr = (Inl UnboundLocalError, tr)"
  by (simp add: request_def)

lemma request_trace: "snd (request srv (Some u) tr) = tr @ [Post u payload]"
  by (simp add: request_def client_post_def split: outcome.splits sum.splits)

lemma request_result:
  "fst (request srv (Some u) tr) =
     (case srv u payload of
        Unreachable \<Rightarrow> Inl ConnectError
      | Replied r \<Rightarrow> (case raise_for_status r of Inl e \<Rightarrow> Inl e | Inr r' \<Rightarrow> json_of r'))"
  by (simp add: request_def client_post_def split: outcome.splits sum.splits)

lemma with_client_trace: "snd (with_client body tr) = snd (body (tr @ [ClientEnter])) @ [ClientExit]"
  by (simp add: with_client_def split: prod.splits)

lemma with_client_result: "fst (with_client body tr) = fst (body (tr @ [ClientEnter]))"
  by (simp add: with_client_def split: prod.splits)

lemma main_trace_recognized:
  "1 < length args \<Longrightarrow> select_url (args ! 1) = Some u \<Longrightarrow>
     snd (main srv args) = [ClientEnter, Post u payload, ClientExit]"
  by (simp add: main_long with_client_trace request_trace)

lemma main_unrecognized:
  "1 < length args \<Longrightarrow> select_url (args ! 1) = None \<Longrightarrow>
     main srv args = (Inl UnboundLocalError, [ClientEnter, ClientExit])"
  by (simp add: main_long with_client_def request_unbound)

lemma main_result_recognized:
  "1 < length args \<Longrightarrow> select_url (args ! 1) = Some u \<Longrightarrow>
     fst (main srv args) =
       (case srv u payload of
          Unreachable \<Rightarrow> Inl ConnectError
        | Replied r \<Rightarrow> (case raise_for_status r of Inl e \<Rightarrow> Inl e | Inr r' \<Rightarrow> json_of r'))"
  by (simp add: main_long with_client_result request_result)

lemma main_trace_shapes:
  "snd (main srv args) = [] \<or>
   snd (main srv args) = [ClientEnter, ClientExit] \<or>
   (\<exists>u. select_url (args ! 1) = Some u \<and> 1 < length args \<and>
        snd (main srv args) = [ClientEnter, Post u payload, ClientExit])"
proof (cases "1 < length args")
  case False
  then have "main srv args = (Inl IndexError, [])" by (simp add: main_short)
  then show ?thesis by simp
next
  case long: True
  show ?thesis
  proof (cases "select_url (args ! 1)")
    case None
    with long show ?thesis by (simp add: main_unrecognized)
  next
    case (Some u)
    with long show ?thesis by (simp add: main_trace_recognized)
  qed
qed

lemma script_events: "events (script srv argv) =
    snd (main srv argv) @ [case fst (main srv argv) of Inl e \<Rightarrow> Traceback e | Inr j \<Rightarrow> Pprint j]"
  by (simp add: script_def split: prod.splits sum.splits)

lemma script_exit: "exit_status (script srv argv) =
    (case fst (main srv argv) of Inl e \<Rightarrow> 1 | Inr j \<Rightarrow> 0)"
  by (simp add: script_def split: prod.splits sum.splits)

lemma posts_append: "posts (xs @ ys) = posts xs @ posts ys"
  by (induction xs rule: posts.induct) simp_all

subsection \<open>The argument vector of a real process\<close>

text \<open>
  C1. The claim: when the argument vector holds only the program name, the dispatcher
  takes \<open>"login"\<close> as the sub-command and the request goes to the login URL. The source
  tests \<open>len(args) == 0\<close>, which the program name alone already falsifies, so nothing is
  appended and \<open>args[1]\<close> raises: at the vector \<open>["auth-login.py"]\<close> the process makes no
  request at all and exits with status 1 on an \<open>IndexError\<close>.
\<close>

theorem script_program_name_only:
  "script srv_token [''auth-login.py''] = \<lparr>exit_status = 1, events = [Traceback IndexError]\<rparr>"
  by (simp add: script_def main_short)

text \<open>
  C9. For an argument vector of length exactly one, \<open>args[1]\<close> is out of range and \<open>main\<close>
  fails with \<open>IndexError\<close> before any event, so before any network request; and the branch
  that appends the default never runs for a vector that is not empty, as every vector of
  a real process is, since it starts with the program name.
\<close>

theorem main_index_error_length_one:
  "(args \<noteq> [] \<longrightarrow> default_args args = args) \<and>
   (length args = 1 \<longrightarrow> main srv args = (Inl IndexError, []))"
  by (simp add: default_args_nonempty main_short)

theorem main_index_error_length_one_witness:
  "default_args [''auth-login.py''] = [''auth-login.py''] \<and>
   main srv_token [''auth-login.py''] = (Inl IndexError, [])"
  using main_index_error_length_one [where args = "[''auth-login.py'']" and srv = srv_token]
  by simp

subsection \<open>Selecting the URL\<close>

text \<open>
  C2. When the sub-command (the element at index 1) is \<open>"register"\<close> the URL selected, and
  the one the request goes to, is \<open>http://localhost:3001/api/auth/register\<close>; when it is
  \<open>"login"\<close> it is \<open>http://localhost:3001/api/auth/login\<close>.
\<close>

theorem main_url_by_subcommand:
  assumes "1 < length args"
  shows "(args ! 1 = ''register'' \<longrightarrow>
            select_url (args ! 1) = Some ''http://localhost:3001/api/auth/register'' \<and>
            posts (snd (main srv args)) = [(''http://localhost:3001/api/auth/register'', payload)]) \<and>
         (args ! 1 = ''login'' \<longrightarrow>
            select_url (args ! 1) = Some ''http://localhost:3001/api/auth/login'' \<and>
            posts (snd (main srv args)) = [(''http://localhost:3001/api/auth/login'', payload)])"
proof (intro conjI impI)
  assume reg: "args ! 1 = ''register''"
  then show sel: "select_url (args ! 1) = Some ''http://localhost:3001/api/auth/register''"
    by (simp add: select_url_def)
  from assms sel show "posts (snd (main srv args)) = [(''http://localhost:3001/api/auth/register'', payload)]"
    by (simp add: main_trace_recognized)
next
  assume log: "args ! 1 = ''login''"
  then show sel: "select_url (args ! 1) = Some ''http://localhost:3001/api/auth/login''"
    by (simp add: select_url_def)
  from assms sel show "posts (snd (main srv args)) = [(''http://localhost:3001/api/auth/login'', payload)]"
    by (simp add: main_trace_recognized)
qed

theorem main_url_by_subcommand_witness:
  "posts (snd (main srv_token [''auth-login.py'', ''register''])) = [(''http://localhost:3001/api/auth/register'', payload)] \<and>
   posts (snd (main srv_down [''auth-login.py'', ''login''])) = [(''http://localhost:3001/api/auth/login'', payload)]"
  using main_url_by_subcommand [where args = "[''auth-login.py'', ''register'']" and srv = srv_token]
    main_url_by_subcommand [where args = "[''auth-login.py'', ''login'']" and srv = srv_down]
  by simp

text \<open>
  C5. When the sub-command is present and is neither \<open>"register"\<close> nor \<open>"login"\<close>, no case
  of the \<open>match\<close> binds \<open>url\<close>; reading it fails (Python's \<open>UnboundLocalError\<close>, the failed
  lookup of the local name), the error leaves \<open>main\<close> and the process exits with a status
  other than zero.
\<close>

theorem unrecognized_subcommand_crashes:
  assumes "1 < length args" and "args ! 1 \<noteq> ''register''" and "args ! 1 \<noteq> ''login''"
  shows "fst (main srv args) = Inl UnboundLocalError \<and> exit_status (script srv args) \<noteq> 0"
proof -
  from assms(2,3) have "select_url (args ! 1) = None"
    by (simp add: select_url_None)
  with assms(1) have "main srv args = (Inl UnboundLocalError, [ClientEnter, ClientExit])"
    by (rule main_unrecognized)
  then show ?thesis by (simp add: script_exit)
qed

theorem unrecognized_subcommand_crashes_witness:
  "fst (main srv_token [''auth-login.py'', ''reset'']) = Inl UnboundLocalError \<and>
   exit_status (script srv_token [''auth-login.py'', ''reset'']) \<noteq> 0"
  using unrecognized_subcommand_crashes [where args = "[''auth-login.py'', ''reset'']" and srv = srv_token]
  by simp

text \<open>
  C10. Two argument vectors of length at least two that agree at index 1 give the same
  run of \<open>main\<close>: the same result and the same events, hence the same URL and payload.
  The elements at index 0 and from index 2 on are never read.
\<close>

theorem main_reads_index_one_only:
  "1 < length a \<Longrightarrow> 1 < length b \<Longrightarrow> a ! 1 = b ! 1 \<Longrightarrow> main srv a = main srv b"
  by (simp add: main_long)

theorem main_reads_index_one_only_witness:
  "main srv_token [''auth-login.py'', ''login''] = main srv_token [''x'', ''login'', ''--verbose'']"
  using main_reads_index_one_only [where a = "[''auth-login.py'', ''login'']"
      and b = "[''x'', ''login'', ''--verbose'']" and srv = srv_token]
  by simp

subsection \<open>The request\<close>

text \<open>
  C3. Every POST that an invocation issues carries the fixed payload, the dictionary with
  \<open>email\<close> \<open>joeblackwaslike@me.com\<close> and \<open>password\<close> \<open>Prosperis123!\<close>, whatever the arguments
  and whatever the server does.
\<close>

theorem post_body_is_payload:
  "Post u b \<in> set (snd (main srv args)) \<Longrightarrow>
     b = JDict [(''email'', JStr ''joeblackwaslike@me.com''), (''password'', JStr ''Prosperis123!'')]"
  using main_trace_shapes [of srv args] by (auto simp: payload_def)

theorem post_body_is_payload_witness:
  "Post ''http://localhost:3001/api/auth/register'' payload \<in> set (snd (main srv_token [''auth-login.py'', ''register''])) \<and>
   payload = JDict [(''email'', JStr ''joeblackwaslike@me.com''), (''password'', JStr ''Prosperis123!'')]"
proof -
  have sent: "Post ''http://localhost:3001/api/auth/register'' payload \<in> set (snd (main srv_token [''auth-login.py'', ''register'']))"
    by (simp add: main_trace_recognized select_url_def)
  from sent post_body_is_payload [OF sent] show ?thesis by simp
qed

text \<open>
  C7, as amended. The claim that every invocation performs exactly one network call fails
  for an unrecognized sub-command, where \<open>url\<close> is read before the call is made. What
  holds: with a sub-command at index 1, the process makes exactly one POST when it is
  \<open>"register"\<close> or \<open>"login"\<close>, and none otherwise.
\<close>

theorem one_post_iff_recognized:
  "1 < length args \<Longrightarrow>
     length (posts (events (script srv args))) =
       (if args ! 1 = ''register'' \<or> args ! 1 = ''login'' then 1 else 0)"
proof (cases "select_url (args ! 1)")
  case None
  assume "1 < length args"
  with None have "main srv args = (Inl UnboundLocalError, [ClientEnter, ClientExit])"
    by (simp add: main_unrecognized)
  moreover from None have "args ! 1 \<noteq> ''register'' \<and> args ! 1 \<noteq> ''login''"
    by (simp add: select_url_None)
  ultimately show ?thesis by (simp add: script_events posts_append)
next
  case (Some u)
  assume "1 < length args"
  with Some have "snd (main srv args) = [ClientEnter, Post u payload, ClientExit]"
    by (simp add: main_trace_recognized)
  moreover from Some have "args ! 1 = ''register'' \<or> args ! 1 = ''login''"
    by (auto simp: select_url_cases)
  ultimately show ?thesis
    by (simp add: script_events posts_append split: sum.splits)
qed

theorem one_post_iff_recognized_witness:
  "length (posts (events (script srv_token [''auth-login.py'', ''login'']))) = 1 \<and>
   length (posts (events (script srv_unauthorized [''auth-login.py'', ''reset'']))) = 0"
  using one_post_iff_recognized [where args = "[''auth-login.py'', ''login'']" and srv = srv_token]
    one_post_iff_recognized [where args = "[''auth-login.py'', ''reset'']" and srv = srv_unauthorized]
  by simp

text \<open>
  C7, as stated, at a concrete input: with the sub-command \<open>"reset"\<close> the process exits
  without having made one network call.
\<close>

theorem one_post_always_counterexample:
  "length (posts (events (script srv_token [''auth-login.py'', ''reset'']))) \<noteq> 1"
  by (simp add: script_events posts_append main_unrecognized select_url_def)

text \<open>
  C8. In every invocation that reaches the HTTP call, the client is entered before the
  request and left after it, and nothing else happens in between: the events of \<open>main\<close>
  are exactly enter, post, exit. This holds for every server, so also when the request
  fails or the status check raises.
\<close>

theorem client_scoped_around_post:
  "Post u b \<in> set (snd (main srv args)) \<Longrightarrow>
     snd (main srv args) = [ClientEnter, Post u b, ClientExit]"
  using main_trace_shapes [of srv args] by auto

theorem client_scoped_around_post_witness:
  "snd (main srv_unauthorized [''auth-login.py'', ''login'']) = [ClientEnter, Post ''http://localhost:3001/api/auth/login'' payload, ClientExit] \<and>
   snd (main srv_down [''auth-login.py'', ''login'']) = [ClientEnter, Post ''http://localhost:3001/api/auth/login'' payload, ClientExit] \<and>
   fst (main srv_unauthorized [''auth-login.py'', ''login'']) = Inl (HTTPStatusError 401) \<and>
   fst (main srv_down [''auth-login.py'', ''login'']) = Inl ConnectError"
proof -
  have sel: "select_url ([''auth-login.py'', ''login''] ! 1) = Some ''http://localhost:3001/api/auth/login''"
    by (simp add: select_url_def)
  have s1: "Post ''http://localhost:3001/api/auth/login'' payload \<in> set (snd (main srv_unauthorized [''auth-login.py'', ''login'']))"
    using sel by (simp add: main_trace_recognized)
  have s2: "Post ''http://localhost:3001/api/auth/login'' payload \<in> set (snd (main srv_down [''auth-login.py'', ''login'']))"
    using sel by (simp add: main_trace_recognized)
  have r1: "fst (main srv_unauthorized [''auth-login.py'', ''login'']) = Inl (HTTPStatusError 401)"
    using sel by (simp add: main_result_recognized srv_unauthorized_def raise_for_status_def)
  have r2: "fst (main srv_down [''auth-login.py'', ''login'']) = Inl ConnectError"
    using sel by (simp add: main_result_recognized srv_down_def)
  from client_scoped_around_post [OF s1] client_scoped_around_post [OF s2] r1 r2
  show ?thesis by simp
qed

subsection \<open>The response\<close>

text \<open>
  C4, as amended. For every response received, \<open>main\<close> fails with the HTTP-error
  condition, carrying the status, exactly when the status is not a success status (not
  within 200 to 299): for 4xx and 5xx, and for 1xx and 3xx as well. For a success status
  its result is what decoding the body as JSON gives: the decoded value when the body is
  JSON.
\<close>

theorem http_error_iff_not_success:
  assumes "1 < length args" and "select_url (args ! 1) = Some u"
    and "srv u payload = Replied r"
  shows "((\<exists>s. fst (main srv args) = Inl (HTTPStatusError s)) \<longleftrightarrow>
            \<not> (200 \<le> status_code r \<and> status_code r \<le> 299)) \<and>
         (\<not> (200 \<le> status_code r \<and> status_code r \<le> 299) \<longrightarrow>
            fst (main srv args) = Inl (HTTPStatusError (status_code r))) \<and>
         (200 \<le> status_code r \<and> status_code r \<le> 299 \<longrightarrow>
            fst (main srv args) =
              (case json_body r of None \<Rightarrow> Inl JSONDecodeError | Some j \<Rightarrow> Inr j))"
proof -
  from assms have res: "fst (main srv args) =
      (case raise_for_status r of Inl e \<Rightarrow> Inl e | Inr r' \<Rightarrow> json_of r')"
    by (simp add: main_result_recognized)
  show ?thesis
  proof (cases "200 \<le> status_code r \<and> status_code r \<le> 299")
    case True
    with res have "fst (main srv args) = json_of r" by (simp add: raise_for_status_def)
    with True show ?thesis by (simp add: json_of_def split: option.splits)
  next
    case False
    with res have "fst (main srv args) = Inl (HTTPStatusError (status_code r))"
      by (simp add: raise_for_status_def)
    with False show ?thesis by auto
  qed
qed

theorem http_error_iff_not_success_witness:
  "fst (main srv_unauthorized [''auth-login.py'', ''login'']) = Inl (HTTPStatusError 401) \<and>
   fst (main srv_found [''auth-login.py'', ''login'']) = Inl (HTTPStatusError 302) \<and>
   fst (main srv_token [''auth-login.py'', ''login'']) = Inr token"
proof -
  have sel: "select_url ([''auth-login.py'', ''login''] ! 1) =
      Some ''http://localhost:3001/api/auth/login''"
    by (simp add: select_url_def)
  have len: "1 < length [''auth-login.py'', ''login'']" by simp
  have bad: "srv_unauthorized ''http://localhost:3001/api/auth/login'' payload =
      Replied \<lparr>status_code = 401, json_body = Some JNull\<rparr>"
    by (simp add: srv_unauthorized_def)
  have moved: "srv_found ''http://localhost:3001/api/auth/login'' payload =
      Replied \<lparr>status_code = 302, json_body = Some JNull\<rparr>"
    by (simp add: srv_found_def found_def)
  have good: "srv_token ''http://localhost:3001/api/auth/login'' payload =
      Replied \<lparr>status_code = 200, json_body = Some token\<rparr>"
    by (simp add: srv_token_def)
  from http_error_iff_not_success [where srv = srv_unauthorized, OF len sel bad]
    http_error_iff_not_success [where srv = srv_found, OF len sel moved]
    http_error_iff_not_success [where srv = srv_token, OF len sel good]
  show ?thesis by simp
qed

text \<open>
  C4, as stated, at a concrete input: the server answers \<open>302\<close>, which is neither a
  client nor a server error, and \<open>main\<close> still fails with the HTTP-error condition
  instead of returning the decoded body.
\<close>

theorem http_error_iff_4xx_5xx_counterexample:
  "srv_found ''http://localhost:3001/api/auth/login'' payload = Replied found \<and>
   \<not> (400 \<le> status_code found \<and> status_code found \<le> 599) \<and>
   fst (main srv_found [''auth-login.py'', ''login'']) = Inl (HTTPStatusError 302) \<and>
   fst (main srv_found [''auth-login.py'', ''login'']) \<noteq> Inr JNull"
  by (simp add: srv_found_def found_def main_result_recognized select_url_def
      raise_for_status_def)

text \<open>
  C6. With a recognized sub-command and a server that answers with status 200 and the
  body \<open>{"token": "abc"}\<close>, the process posts once, pretty-prints that dictionary and
  exits with status 0.
\<close>

theorem token_printed_exit_zero:
  assumes "1 < length args" and "select_url (args ! 1) = Some u"
    and "srv u payload = Replied \<lparr>status_code = 200, json_body = Some (JDict [(''token'', JStr ''abc'')])\<rparr>"
  shows "script srv args =
    \<lparr>exit_status = 0,
     events = [ClientEnter, Post u payload, ClientExit, Pprint (JDict [(''token'', JStr ''abc'')])]\<rparr>"
proof -
  from assms have "fst (main srv args) = Inr (JDict [(''token'', JStr ''abc'')])"
    by (simp add: main_result_recognized raise_for_status_def json_of_def)
  moreover from assms have "snd (main srv args) = [ClientEnter, Post u payload, ClientExit]"
    by (simp add: main_trace_recognized)
  ultimately have "main srv args =
      (Inr (JDict [(''token'', JStr ''abc'')]), [ClientEnter, Post u payload, ClientExit])"
    by (simp add: prod_eq_iff)
  then show ?thesis by (simp add: script_def)
qed

theorem token_printed_exit_zero_witness:
  "script srv_token [''auth-login.py'', ''register''] =
    \<lparr>exit_status = 0,
     events = [ClientEnter, Post ''http://localhost:3001/api/auth/register'' payload, ClientExit, Pprint (JDict [(''token'', JStr ''abc'')])]\<rparr>"
proof -
  have sel: "select_url ([''auth-login.py'', ''register''] ! 1) = Some ''http://localhost:3001/api/auth/register''"
    by (simp add: select_url_def)
  have len: "1 < length [''auth-login.py'', ''register'']" by simp
  have ans: "srv_token ''http://localhost:3001/api/auth/register'' payload =
      Replied \<lparr>status_code = 200, json_body = Some (JDict [(''token'', JStr ''abc'')])\<rparr>"
    by (simp add: srv_token_def token_def)
  from token_printed_exit_zero [where srv = srv_token, OF len sel ans] show ?thesis .
qed

end
